theory Spec2Isabelle
  imports Main
begin

section \<open>Values exchanged with the callers\<close>

text \<open>
  Every tool handler of \<^verbatim>\<open>src/server.mjs\<close> answers with one text item holding
  \<^verbatim>\<open>JSON.stringify(obj)\<close>. The model keeps the object \<open>obj\<close> itself (the report):
  an object is the list of its properties in insertion order, and a property whose
  value is \<^verbatim>\<open>undefined\<close> is left out, as \<^verbatim>\<open>JSON.stringify\<close> does.
  Numbers are the integers (identifiers, counts and limits are integral in use).
\<close>

datatype json =
    JNull
  | JBool bool
  | JNum int
  | JStr string
  | JArr "json list"
  | JObj "(string \<times> json) list"

definition jstrings :: "string list \<Rightarrow> json" where
  "jstrings xs = JArr (map JStr xs)"

definition jnums :: "int list \<Rightarrow> json" where
  "jnums xs = JArr (map JNum xs)"

definition opt_field :: "string \<Rightarrow> json option \<Rightarrow> (string \<times> json) list" where
  "opt_field k v = (case v of None \<Rightarrow> [] | Some x \<Rightarrow> [(k, x)])"

text \<open>Decimal rendering of a length inside a template literal.\<close>

definition digit_char :: "nat \<Rightarrow> char" where
  "digit_char d = char_of (48 + d)"

function string_of_nat :: "nat \<Rightarrow> string" where
  "string_of_nat n =
     (if n < 10 then [digit_char n] else string_of_nat (n div 10) @ [digit_char (n mod 10)])"
  by pat_completeness auto
termination
  by (relation "measure id") auto

declare string_of_nat.simps [simp del]

section \<open>Account registry (\<^verbatim>\<open>src/config.mjs\<close>)\<close>

text \<open>
  \<^verbatim>\<open>user\<close> and \<^verbatim>\<open>password\<close> come from the environment: a string, or
  \<^verbatim>\<open>undefined\<close> (\<open>None\<close>) when the variable is not set. The newer configuration
  adds the \<^verbatim>\<open>smtp\<close> block; the older one has none (\<open>None\<close>).
\<close>

record smtp_settings =
  smtp_host :: string
  smtp_port :: int
  smtp_secure :: bool

record account =
  acc_name :: string
  acc_host :: string
  acc_port :: int
  acc_user :: "string option"
  acc_password :: "string option"
  acc_tls :: bool
  acc_smtp :: "smtp_settings option"

record config =
  cfg_port :: int
  cfg_apiKey :: string
  cfg_accounts :: "(string \<times> account) list"

text \<open>JavaScript truthiness of a value that is a string or \<^verbatim>\<open>undefined\<close>.\<close>

fun truthy :: "string option \<Rightarrow> bool" where
  "truthy None = False"
| "truthy (Some s) = (s \<noteq> [])"

definition getConfiguredAccounts :: "config \<Rightarrow> (string \<times> account) list" where
  "getConfiguredAccounts cfg =
     map (\<lambda>(key, acc). (key, acc))
       (filter (\<lambda>(_, acc). truthy (acc_user acc) \<and> truthy (acc_password acc))
          (cfg_accounts cfg))"

section \<open>The mailbox tree and its flattener\<close>

text \<open>
  A box of the protocol library carries \<^verbatim>\<open>delimiter\<close>, \<^verbatim>\<open>attribs\<close> and
  \<^verbatim>\<open>children\<close>; each may be absent. The delimiter is a string, \<^verbatim>\<open>null\<close> or
  \<^verbatim>\<open>undefined\<close>, and a template literal prints the last two as the words
  \<^verbatim>\<open>null\<close> and \<^verbatim>\<open>undefined\<close>. A tree level is the list of
  \<^verbatim>\<open>Object.entries\<close> of the object at that level, in enumeration order. That
  order is the order of insertion only for names that are not integer-like: names such
  as \<^verbatim>\<open>2024\<close> are enumerated first, in ascending order, wherever the server
  listed them. The model starts from the enumerated list, so what it says about order
  is relative to the enumeration, not to the server's listing.
\<close>

datatype delim = DUndefined | DNull | DStr string

fun delim_text :: "delim \<Rightarrow> string" where
  "delim_text DUndefined = ''undefined''"
| "delim_text DNull = ''null''"
| "delim_text (DStr s) = s"

datatype box =
  Box (delimiter: delim) (attribs: "string list option")
      (children: "(string \<times> box) list option")

record folder =
  fd_name :: string
  fd_delimiter :: delim
  fd_flags :: "string list"

text \<open>
  \<^verbatim>\<open>prefix ? `${prefix}${box.delimiter}${name}` : name\<close>: the empty prefix is falsy.
\<close>

function flattenMailboxes :: "(string \<times> box) list \<Rightarrow> string \<Rightarrow> folder list" where
  "flattenMailboxes [] prefix = []"
| "flattenMailboxes ((nm, Box d a ch) # rest) prefix =
     (let fullName = (if prefix \<noteq> [] then prefix @ delim_text d @ nm else nm);
          here = \<lparr>fd_name = fullName, fd_delimiter = d,
                  fd_flags = (case a of None \<Rightarrow> [] | Some fs \<Rightarrow> fs)\<rparr>;
          below = (case ch of None \<Rightarrow> [] | Some cs \<Rightarrow> flattenMailboxes cs fullName)
      in here # below @ flattenMailboxes rest prefix)"
  by pat_completeness auto
termination
  by (relation "measure (\<lambda>(bs, p). size_list (size_prod (\<lambda>_. 0) size) bs)") auto

section \<open>The protocol library as an external collaborator\<close>

text \<open>
  The IMAP library is not part of the repository. It is a parameter of the model: a
  deterministic machine over a server state \<open>'s\<close>, one transition per primitive,
  answering each call either with an error (\<open>Inl\<close> of the message that
  \<^verbatim>\<open>error.message\<close> reads) or with the value passed to the callback. Every call is
  assumed to call back (the library's own timeouts turn a hung connection into an
  error). Every call made by the code is logged together with its outcome.
\<close>

text \<open>
  The options a connection is created with; the constant
  \<^verbatim>\<open>tlsOptions: { rejectUnauthorized: false }\<close> is left out.
\<close>

record imap_options =
  io_user :: "string option"
  io_password :: "string option"
  io_host :: string
  io_port :: int
  io_tls :: bool

datatype criterion = Plain string | Nested "string list"

record attributes =
  at_uid :: int
  at_flags :: "string list"
  at_date :: string

text \<open>
  One message of a fetch as the library delivers it: its sequence number, the complete
  text of each body stream in order, and the attributes if that event fires.
\<close>

record fetched =
  ft_seqno :: int
  ft_bodies :: "string list"
  ft_attrs :: "attributes option"

record mail_options =
  mo_from :: string
  mo_to :: string
  mo_subject :: string
  mo_text :: string
  mo_html :: "string option"
  mo_cc :: "string option"
  mo_bcc :: "string option"
  mo_replyTo :: "string option"

record transporter =
  tp_host :: string
  tp_port :: int
  tp_secure :: bool
  tp_user :: "string option"
  tp_pass :: "string option"

record send_info =
  si_messageId :: string
  si_accepted :: "string list"
  si_rejected :: "string list"

datatype command =
    Connect imap_options
  | OpenBox string bool
  | GetBoxes
  | Move int string
  | AddFlags "int list" "string list"
  | DelFlags "int list" "string list"
  | Expunge
  | Search "criterion list"
  | Fetch "int list" "string list" bool
  | SendMail transporter mail_options
  | End

datatype outcome = Done | Failed string

type_synonym event = "command \<times> outcome"

record 's imap_lib =
  lib_connect :: "imap_options \<Rightarrow> 's \<Rightarrow> (string + unit) \<times> 's"
  lib_openBox :: "string \<Rightarrow> bool \<Rightarrow> 's \<Rightarrow> (string + unit) \<times> 's"
  lib_getBoxes :: "'s \<Rightarrow> (string + (string \<times> box) list) \<times> 's"
  lib_move :: "int \<Rightarrow> string \<Rightarrow> 's \<Rightarrow> (string + unit) \<times> 's"
  lib_addFlags :: "int list \<Rightarrow> string list \<Rightarrow> 's \<Rightarrow> (string + unit) \<times> 's"
  lib_delFlags :: "int list \<Rightarrow> string list \<Rightarrow> 's \<Rightarrow> (string + unit) \<times> 's"
  lib_expunge :: "'s \<Rightarrow> (string + unit) \<times> 's"
  lib_search :: "criterion list \<Rightarrow> 's \<Rightarrow> (string + int list) \<times> 's"
  lib_fetch :: "int list \<Rightarrow> string list \<Rightarrow> bool \<Rightarrow> 's \<Rightarrow> (string + fetched list) \<times> 's"
  lib_sendMail :: "transporter \<Rightarrow> mail_options \<Rightarrow> 's \<Rightarrow> (string + send_info) \<times> 's"

text \<open>
  A session is created by each handler call and lives until the handler returns: the
  server state it talks to, the handler's local variable \<^verbatim>\<open>imap\<close>
  (\<^verbatim>\<open>undefined\<close> until \<^verbatim>\<open>createImapConnection\<close> has returned) and the log of
  the calls made so far.
\<close>

record 's session =
  ses_server :: 's
  ses_imap :: "imap_options option"
  trace :: "event list"

definition new_session :: "'s \<Rightarrow> 's session" where
  "new_session s = \<lparr>ses_server = s, ses_imap = None, trace = []\<rparr>"

type_synonym ('s, 'a) io = "'s session \<Rightarrow> (string + 'a) \<times> 's session"

definition io_return :: "'a \<Rightarrow> ('s, 'a) io" where
  "io_return x \<sigma> = (Inr x, \<sigma>)"

definition io_bind :: "('s, 'a) io \<Rightarrow> ('a \<Rightarrow> ('s, 'b) io) \<Rightarrow> ('s, 'b) io" where
  "io_bind m f \<sigma> = (case m \<sigma> of (Inl e, \<sigma>') \<Rightarrow> (Inl e, \<sigma>') | (Inr x, \<sigma>') \<Rightarrow> f x \<sigma>')"

definition outcome_of :: "string + 'a \<Rightarrow> outcome" where
  "outcome_of r = (case r of Inl e \<Rightarrow> Failed e | Inr _ \<Rightarrow> Done)"

text \<open>Awaiting the promise around one library call.\<close>

definition await_call :: "command \<Rightarrow> ('s \<Rightarrow> (string + 'a) \<times> 's) \<Rightarrow> ('s, 'a) io" where
  "await_call c f \<sigma> =
     (case f (ses_server \<sigma>) of
        (r, s') \<Rightarrow> (r, \<sigma>\<lparr>ses_server := s', trace := trace \<sigma> @ [(c, outcome_of r)]\<rparr>))"

text \<open>\<^verbatim>\<open>imap.end()\<close>: synchronous, nothing to await.\<close>

definition imap_end :: "('s, unit) io" where
  "imap_end \<sigma> = (Inr (), \<sigma>\<lparr>trace := trace \<sigma> @ [(End, Done)]\<rparr>)"

section \<open>IMAP helper functions\<close>

definition not_configured :: "string \<Rightarrow> string" where
  "not_configured accountKey = ''Account '' @ [CHR 0x27] @ accountKey @ [CHR 0x27] @ '' not configured''"

definition createImapConnection :: "config \<Rightarrow> string \<Rightarrow> string + imap_options" where
  "createImapConnection cfg accountKey =
     (case map_of (cfg_accounts cfg) accountKey of
        None \<Rightarrow> Inl (not_configured accountKey)
      | Some account \<Rightarrow>
          if \<not> truthy (acc_user account) \<or> \<not> truthy (acc_password account)
          then Inl (not_configured accountKey)
          else Inr \<lparr>io_user = acc_user account, io_password = acc_password account,
                    io_host = acc_host account, io_port = acc_port account,
                    io_tls = acc_tls account\<rparr>)"

definition connectImap :: "'s imap_lib \<Rightarrow> imap_options \<Rightarrow> ('s, unit) io" where
  "connectImap lib imap = await_call (Connect imap) (lib_connect lib imap)"

definition openMailbox :: "'s imap_lib \<Rightarrow> string \<Rightarrow> bool \<Rightarrow> ('s, unit) io" where
  "openMailbox lib mailbox readOnly =
     await_call (OpenBox mailbox readOnly) (lib_openBox lib mailbox readOnly)"

definition listMailboxes :: "'s imap_lib \<Rightarrow> ('s, (string \<times> box) list) io" where
  "listMailboxes lib = await_call GetBoxes (lib_getBoxes lib)"

text \<open>The objects these helpers resolve with are never read by a caller.\<close>

definition moveEmail :: "'s imap_lib \<Rightarrow> int \<Rightarrow> string \<Rightarrow> ('s, unit) io" where
  "moveEmail lib uid targetFolder =
     await_call (Move uid targetFolder) (lib_move lib uid targetFolder)"

text \<open>The flag names \<^verbatim>\<open>"\\Deleted"\<close> and \<^verbatim>\<open>"\\Seen"\<close>: a backslash, then the word.\<close>

definition flag_Deleted :: string where
  "flag_Deleted = CHR 0x5C # ''Deleted''"

definition flag_Seen :: string where
  "flag_Seen = CHR 0x5C # ''Seen''"

definition deleteEmail :: "'s imap_lib \<Rightarrow> int \<Rightarrow> ('s, unit) io" where
  "deleteEmail lib uid =
     io_bind (await_call (AddFlags [uid] [flag_Deleted]) (lib_addFlags lib [uid] [flag_Deleted]))
       (\<lambda>_. await_call Expunge (lib_expunge lib))"

definition removeFlags :: "'s imap_lib \<Rightarrow> int list \<Rightarrow> string list \<Rightarrow> ('s, unit) io" where
  "removeFlags lib uids flags = await_call (DelFlags uids flags) (lib_delFlags lib uids flags)"

definition addFlags :: "'s imap_lib \<Rightarrow> int list \<Rightarrow> string list \<Rightarrow> ('s, unit) io" where
  "addFlags lib uids flags = await_call (AddFlags uids flags) (lib_addFlags lib uids flags)"

definition searchEmails :: "'s imap_lib \<Rightarrow> criterion list \<Rightarrow> ('s, int list) io" where
  "searchEmails lib criteria = await_call (Search criteria) (lib_search lib criteria)"

subsection \<open>Fetching and header parsing\<close>

text \<open>
  Characters are code units below 256. \<^verbatim>\<open>\s\<close> of a JavaScript regular expression
  matches, among these, tab, line feed, vertical tab, form feed, carriage return, space
  and the no-break space; \<^verbatim>\<open>.\<close> matches everything but the line terminators.
\<close>

definition is_js_space :: "char \<Rightarrow> bool" where
  "is_js_space c = (c \<in> {CHR 0x09, CHR 0x0A, CHR 0x0B, CHR 0x0C, CHR 0x0D, CHR 0x20, CHR 0xA0})"

definition is_line_terminator :: "char \<Rightarrow> bool" where
  "is_line_terminator c = (c = CHR 0x0A \<or> c = CHR 0x0D)"

definition lower_char :: "char \<Rightarrow> char" where
  "lower_char c =
     (let n = (of_char c :: nat)
      in if (65 \<le> n \<and> n \<le> 90) \<or> (192 \<le> n \<and> n \<le> 222 \<and> n \<noteq> 215)
         then char_of (n + 32) else c)"

definition toLowerCase :: "string \<Rightarrow> string" where
  "toLowerCase s = map lower_char s"

text \<open>\<^verbatim>\<open>buffer.split(/\r?\n/)\<close>: a carriage return right before a line feed goes with it.\<close>

fun split_lines :: "string \<Rightarrow> string list" where
  "split_lines [] = [[]]"
| "split_lines (c # cs) =
     (if c = CHR 0x0A then [] # split_lines cs
      else if c = CHR 0x0D \<and> cs \<noteq> [] \<and> hd cs = CHR 0x0A then split_lines cs
      else (case split_lines cs of [] \<Rightarrow> [[c]] | l # ls \<Rightarrow> (c # l) # ls))"

text \<open>
  \<^verbatim>\<open>line.match(/^([^:]+):\s*(.*)$/)\<close>: the name is the non-empty text before the
  first colon, the value what follows the colon and the white space after it, and the
  value must reach the end of the line without a line terminator.
\<close>

definition match_header :: "string \<Rightarrow> (string \<times> string) option" where
  "match_header line =
     (let key = takeWhile (\<lambda>c. c \<noteq> CHR '':'') line;
          rest = dropWhile (\<lambda>c. c \<noteq> CHR '':'') line
      in if key = [] \<or> rest = [] then None
         else let v = dropWhile is_js_space (tl rest)
              in if list_ex is_line_terminator v then None else Some (key, v))"

record email =
  em_seqno :: int
  em_uid :: "int option"
  em_headers :: "string \<Rightarrow> string option"
  em_rawHeaders :: "string option"
  em_flags :: "string list option"
  em_date :: "string option"

text \<open>
  \<^verbatim>\<open>email.headers[name] = value\<close> on the plain object \<^verbatim>\<open>{}\<close>: an own property
  is stored, except under the name \<^verbatim>\<open>__proto__\<close>, where the assignment of a string
  goes to the prototype setter and stores nothing.
\<close>

definition set_header :: "string \<Rightarrow> string \<Rightarrow> (string \<Rightarrow> string option) \<Rightarrow> (string \<Rightarrow> string option)" where
  "set_header k v headers = (if k = ''__proto__'' then headers else headers(k \<mapsto> v))"

definition parse_body :: "string \<Rightarrow> email \<Rightarrow> email" where
  "parse_body buffer e =
     fold (\<lambda>line e'. case match_header line of
                        None \<Rightarrow> e'
                      | Some (k, v) \<Rightarrow>
                          e'\<lparr>em_headers := set_header (toLowerCase k) v (em_headers e')\<rparr>)
       (split_lines buffer) (e\<lparr>em_rawHeaders := Some buffer\<rparr>)"

definition on_message :: "fetched \<Rightarrow> email" where
  "on_message m =
     (let e0 = \<lparr>em_seqno = ft_seqno m, em_uid = None, em_headers = Map.empty,
                em_rawHeaders = None, em_flags = None, em_date = None\<rparr>;
          e1 = fold parse_body (ft_bodies m) e0
      in case ft_attrs m of
           None \<Rightarrow> e1
         | Some attrs \<Rightarrow> e1\<lparr>em_uid := Some (at_uid attrs), em_flags := Some (at_flags attrs),
                              em_date := Some (at_date attrs)\<rparr>)"

definition default_bodies :: "string list" where
  "default_bodies = [''HEADER.FIELDS (FROM TO SUBJECT DATE MESSAGE-ID)'']"

text \<open>The only caller passes no options, so the defaults apply.\<close>

definition fetchEmails :: "'s imap_lib \<Rightarrow> int list \<Rightarrow> ('s, email list) io" where
  "fetchEmails lib uids =
     (if uids = [] then io_return []
      else io_bind (await_call (Fetch uids default_bodies False)
                      (lib_fetch lib uids default_bodies False))
             (\<lambda>msgs. io_return (map on_message msgs)))"

text \<open>\<^verbatim>\<open>uids.slice(-limit)\<close>.\<close>

definition slice_from :: "int \<Rightarrow> 'a list \<Rightarrow> 'a list" where
  "slice_from start xs =
     (let len = int (length xs);
          k = (if start < 0 then max (len + start) 0 else min start len)
      in drop (nat k) xs)"

section \<open>Tool handlers\<close>

text \<open>
  Each handler has the shape
  \<^verbatim>\<open>let imap; try { imap = createImapConnection(account); await connectImap(imap); ...;
  imap.end(); return report } catch (error) { if (imap) imap.end(); return failure }\<close>.
  A handler of the model takes the server state, runs on a fresh session and returns
  the report with the final session.
\<close>

definition try_catch ::
  "('s, 'r) io \<Rightarrow> (string \<Rightarrow> 's session \<Rightarrow> 'r \<times> 's session) \<Rightarrow> 's session \<Rightarrow> 'r \<times> 's session" where
  "try_catch body handler \<sigma> =
     (case body \<sigma> of (Inr r, \<sigma>') \<Rightarrow> (r, \<sigma>') | (Inl error, \<sigma>') \<Rightarrow> handler error \<sigma>')"

text \<open>\<^verbatim>\<open>imap = createImapConnection(account)\<close>: the variable is set only if no error is thrown.\<close>

definition assign_imap :: "config \<Rightarrow> string \<Rightarrow> ('s, imap_options) io" where
  "assign_imap cfg account \<sigma> =
     (case createImapConnection cfg account of
        Inl error \<Rightarrow> (Inl error, \<sigma>)
      | Inr c \<Rightarrow> (Inr c, \<sigma>\<lparr>ses_imap := Some c\<rparr>))"

text \<open>\<^verbatim>\<open>if (imap) imap.end()\<close>.\<close>

definition end_if_imap :: "'s session \<Rightarrow> 's session" where
  "end_if_imap \<sigma> = (case ses_imap \<sigma> of None \<Rightarrow> \<sigma> | Some _ \<Rightarrow> snd (imap_end \<sigma>))"

definition failure_report :: "string \<Rightarrow> json" where
  "failure_report msg = JObj [(''success'', JBool False), (''error'', JStr msg)]"

text \<open>The \<^verbatim>\<open>catch\<close> block shared by all tool handlers.\<close>

definition on_error :: "string \<Rightarrow> 's session \<Rightarrow> json \<times> 's session" where
  "on_error error \<sigma> = (failure_report error, end_if_imap \<sigma>)"

definition account_summary :: "string \<times> account \<Rightarrow> json" where
  "account_summary = (\<lambda>(key, a).
     JObj ([(''key'', JStr key), (''name'', JStr (acc_name a)), (''host'', JStr (acc_host a))]
           @ opt_field ''user'' (map_option JStr (acc_user a))))"

definition imap_list_accounts :: "config \<Rightarrow> 's \<Rightarrow> json \<times> 's session" where
  "imap_list_accounts cfg s =
     (JObj [(''success'', JBool True),
            (''accounts'', JArr (map account_summary (getConfiguredAccounts cfg)))],
      new_session s)"

definition imap_list_folders :: "config \<Rightarrow> 's imap_lib \<Rightarrow> string \<Rightarrow> 's \<Rightarrow> json \<times> 's session" where
  "imap_list_folders cfg lib account s =
     try_catch
       (io_bind (assign_imap cfg account) (\<lambda>imap.
        io_bind (connectImap lib imap) (\<lambda>_.
        io_bind (listMailboxes lib) (\<lambda>boxes.
        let folders = flattenMailboxes boxes [] in
        io_bind imap_end (\<lambda>_.
        io_return (JObj [(''success'', JBool True),
                         (''account'', JStr account),
                         (''folders'', jstrings (map fd_name folders)),
                         (''count'', JNum (int (length folders)))]))))))
       on_error (new_session s)"

definition email_summary :: "email \<Rightarrow> json" where
  "email_summary e =
     JObj ([(''uid'', (case em_uid e of None \<Rightarrow> JNull | Some u \<Rightarrow> JNum u))]
           @ opt_field ''from'' (map_option JStr (em_headers e ''from''))
           @ opt_field ''subject'' (map_option JStr (em_headers e ''subject''))
           @ opt_field ''date'' (map_option JStr (em_headers e ''date''))
           @ opt_field ''messageId'' (map_option JStr (em_headers e ''message-id''))
           @ opt_field ''flags'' (map_option jstrings (em_flags e)))"

definition imap_list_emails ::
  "config \<Rightarrow> 's imap_lib \<Rightarrow> string \<Rightarrow> string \<Rightarrow> int \<Rightarrow> string \<Rightarrow> 's \<Rightarrow> json \<times> 's session" where
  "imap_list_emails cfg lib account folder limit criteria s =
     try_catch
       (io_bind (assign_imap cfg account) (\<lambda>imap.
        io_bind (connectImap lib imap) (\<lambda>_.
        io_bind (openMailbox lib folder True) (\<lambda>_.
        let searchCriteria = (if criteria = ''ALL'' then [Plain ''ALL''] else [Plain criteria]) in
        io_bind (searchEmails lib searchCriteria) (\<lambda>uids.
        let limitedUids = slice_from (- limit) uids in
        io_bind (fetchEmails lib limitedUids) (\<lambda>emails.
        io_bind imap_end (\<lambda>_.
        io_return (JObj [(''success'', JBool True),
                         (''account'', JStr account),
                         (''folder'', JStr folder),
                         (''total'', JNum (int (length uids))),
                         (''returned'', JNum (int (length emails))),
                         (''emails'', JArr (map email_summary emails))]))))))))
       on_error (new_session s)"

definition imap_move_email ::
  "config \<Rightarrow> 's imap_lib \<Rightarrow> string \<Rightarrow> string \<Rightarrow> int \<Rightarrow> string \<Rightarrow> 's \<Rightarrow> json \<times> 's session" where
  "imap_move_email cfg lib account sourceFolder uid targetFolder s =
     try_catch
       (io_bind (assign_imap cfg account) (\<lambda>imap.
        io_bind (connectImap lib imap) (\<lambda>_.
        io_bind (openMailbox lib sourceFolder False) (\<lambda>_.
        io_bind (moveEmail lib uid targetFolder) (\<lambda>_.
        io_bind imap_end (\<lambda>_.
        io_return (JObj [(''success'', JBool True),
                         (''account'', JStr account),
                         (''action'', JStr ''moved''),
                         (''uid'', JNum uid),
                         (''from'', JStr sourceFolder),
                         (''to'', JStr targetFolder)])))))))
       on_error (new_session s)"

definition not_found :: "string \<Rightarrow> string \<Rightarrow> string" where
  "not_found messageId sourceFolder =
     ''Email with Message-ID '' @ [CHR 0x27] @ messageId @ [CHR 0x27] @ '' not found in '' @ sourceFolder"

definition imap_move_by_message_id ::
  "config \<Rightarrow> 's imap_lib \<Rightarrow> string \<Rightarrow> string \<Rightarrow> string \<Rightarrow> string \<Rightarrow> 's \<Rightarrow> json \<times> 's session" where
  "imap_move_by_message_id cfg lib account sourceFolder messageId targetFolder s =
     try_catch
       (io_bind (assign_imap cfg account) (\<lambda>imap.
        io_bind (connectImap lib imap) (\<lambda>_.
        io_bind (openMailbox lib sourceFolder False) (\<lambda>_.
        io_bind (searchEmails lib [Nested [''HEADER'', ''MESSAGE-ID'', messageId]]) (\<lambda>uids.
        case uids of
          [] \<Rightarrow>
            io_bind imap_end (\<lambda>_.
            io_return (JObj [(''success'', JBool False),
                             (''error'', JStr (not_found messageId sourceFolder))]))
        | uid # _ \<Rightarrow>
            io_bind (moveEmail lib uid targetFolder) (\<lambda>_.
            io_bind imap_end (\<lambda>_.
            io_return (JObj [(''success'', JBool True),
                             (''account'', JStr account),
                             (''action'', JStr ''moved''),
                             (''messageId'', JStr messageId),
                             (''uid'', JNum uid),
                             (''from'', JStr sourceFolder),
                             (''to'', JStr targetFolder)]))))))))
       on_error (new_session s)"

definition imap_delete_email ::
  "config \<Rightarrow> 's imap_lib \<Rightarrow> string \<Rightarrow> string \<Rightarrow> int \<Rightarrow> 's \<Rightarrow> json \<times> 's session" where
  "imap_delete_email cfg lib account folder uid s =
     try_catch
       (io_bind (assign_imap cfg account) (\<lambda>imap.
        io_bind (connectImap lib imap) (\<lambda>_.
        io_bind (openMailbox lib folder False) (\<lambda>_.
        io_bind (deleteEmail lib uid) (\<lambda>_.
        io_bind imap_end (\<lambda>_.
        io_return (JObj [(''success'', JBool True),
                         (''account'', JStr account),
                         (''action'', JStr ''deleted''),
                         (''uid'', JNum uid),
                         (''folder'', JStr folder)])))))))
       on_error (new_session s)"

subsection \<open>Bulk move\<close>

record item =
  it_uid :: int
  it_success :: bool
  it_error :: "string option"

definition item_json :: "item \<Rightarrow> json" where
  "item_json r =
     JObj ([(''uid'', JNum (it_uid r)), (''success'', JBool (it_success r))]
           @ opt_field ''error'' (map_option JStr (it_error r)))"

text \<open>
  The loop \<^verbatim>\<open>for (const uid of uids) { try { await moveEmail(...); results.push(...) }
  catch (err) { results.push(...) } }\<close>: the inner \<^verbatim>\<open>catch\<close> takes every error, so
  the loop itself cannot fail.
\<close>

fun bulk_loop ::
  "'s imap_lib \<Rightarrow> string \<Rightarrow> int list \<Rightarrow> item list \<Rightarrow> 's session \<Rightarrow> item list \<times> 's session" where
  "bulk_loop lib targetFolder [] results \<sigma> = (results, \<sigma>)"
| "bulk_loop lib targetFolder (uid # uids) results \<sigma> =
     (case moveEmail lib uid targetFolder \<sigma> of
        (Inr _, \<sigma>') \<Rightarrow>
          bulk_loop lib targetFolder uids
            (results @ [\<lparr>it_uid = uid, it_success = True, it_error = None\<rparr>]) \<sigma>'
      | (Inl err, \<sigma>') \<Rightarrow>
          bulk_loop lib targetFolder uids
            (results @ [\<lparr>it_uid = uid, it_success = False, it_error = Some err\<rparr>]) \<sigma>')"

definition imap_bulk_move ::
  "config \<Rightarrow> 's imap_lib \<Rightarrow> string \<Rightarrow> string \<Rightarrow> int list \<Rightarrow> string \<Rightarrow> 's \<Rightarrow> json \<times> 's session" where
  "imap_bulk_move cfg lib account sourceFolder uids targetFolder s =
     try_catch
       (io_bind (assign_imap cfg account) (\<lambda>imap.
        io_bind (connectImap lib imap) (\<lambda>_.
        io_bind (openMailbox lib sourceFolder False) (\<lambda>_.
        io_bind (\<lambda>\<sigma>. case bulk_loop lib targetFolder uids [] \<sigma> of (rs, \<sigma>') \<Rightarrow> (Inr rs, \<sigma>'))
          (\<lambda>results.
        io_bind imap_end (\<lambda>_.
        let successCount = length (filter it_success results) in
        io_return (JObj [(''success'', JBool True),
                         (''account'', JStr account),
                         (''action'', JStr ''bulk_move''),
                         (''targetFolder'', JStr targetFolder),
                         (''total'', JNum (int (length uids))),
                         (''succeeded'', JNum (int successCount)),
                         (''failed'', JNum (int (length uids) - int successCount)),
                         (''results'', JArr (map item_json results))])))))))
       on_error (new_session s)"

subsection \<open>Mark unseen\<close>

definition imap_mark_unseen ::
  "config \<Rightarrow> 's imap_lib \<Rightarrow> string \<Rightarrow> string \<Rightarrow> int list option \<Rightarrow> bool \<Rightarrow> 's \<Rightarrow> json \<times> 's session" where
  "imap_mark_unseen cfg lib account folder uids all s =
     try_catch
       (io_bind (assign_imap cfg account) (\<lambda>imap.
        io_bind (connectImap lib imap) (\<lambda>_.
        io_bind (openMailbox lib folder False) (\<lambda>_.
        io_bind (if all \<or> uids = None \<or> uids = Some []
                 then io_bind (searchEmails lib [Plain ''ALL'']) (\<lambda>found. io_return (Some found))
                 else io_return uids) (\<lambda>targetUids.
        if targetUids = None \<or> targetUids = Some []
        then
          io_bind imap_end (\<lambda>_.
          io_return (JObj [(''success'', JBool True),
                           (''account'', JStr account),
                           (''folder'', JStr folder),
                           (''message'', JStr ''No emails to mark as unseen''),
                           (''count'', JNum 0)]))
        else
          let targets = (case targetUids of None \<Rightarrow> [] | Some t \<Rightarrow> t) in
          io_bind (removeFlags lib targets [flag_Seen]) (\<lambda>_.
          io_bind imap_end (\<lambda>_.
          io_return (JObj [(''success'', JBool True),
                           (''account'', JStr account),
                           (''folder'', JStr folder),
                           (''action'', JStr ''marked_unseen''),
                           (''count'', JNum (int (length targets))),
                           (''uids'', (if length targets \<le> 50 then jnums targets
                                       else JStr (string_of_nat (length targets)
                                                  @ '' emails (list truncated)'')))]))))))))
       on_error (new_session s)"

subsection \<open>Sending mail\<close>

definition smtp_not_configured :: "string \<Rightarrow> string" where
  "smtp_not_configured accountKey =
     ''SMTP not configured for account '' @ [CHR 0x27] @ accountKey @ [CHR 0x27]"

definition createSmtpTransporter :: "config \<Rightarrow> string \<Rightarrow> string + transporter" where
  "createSmtpTransporter cfg accountKey =
     (case map_of (cfg_accounts cfg) accountKey of
        None \<Rightarrow> Inl (not_configured accountKey)
      | Some account \<Rightarrow>
          if \<not> truthy (acc_user account) \<or> \<not> truthy (acc_password account)
          then Inl (not_configured accountKey)
          else (case acc_smtp account of
                  None \<Rightarrow> Inl (smtp_not_configured accountKey)
                | Some smtp \<Rightarrow>
                    Inr \<lparr>tp_host = smtp_host smtp, tp_port = smtp_port smtp,
                          tp_secure = smtp_secure smtp, tp_user = acc_user account,
                          tp_pass = acc_password account\<rparr>))"

text \<open>\<^verbatim>\<open>x || undefined\<close> on an optional string: the empty string is falsy too.\<close>

definition or_undefined :: "string option \<Rightarrow> string option" where
  "or_undefined v = (if truthy v then v else None)"

definition io_lift :: "string + 'a \<Rightarrow> ('s, 'a) io" where
  "io_lift r \<sigma> = (r, \<sigma>)"

definition smtp_send_email ::
  "config \<Rightarrow> 's imap_lib \<Rightarrow> string \<Rightarrow> string \<Rightarrow> string \<Rightarrow> string option \<Rightarrow> string option \<Rightarrow>
   string option \<Rightarrow> string option \<Rightarrow> string option \<Rightarrow> 's \<Rightarrow> json \<times> 's session" where
  "smtp_send_email cfg lib account to subject text html cc bcc replyTo s =
     try_catch
       (io_bind (io_lift (createSmtpTransporter cfg account)) (\<lambda>transporter.
        io_bind (io_lift (case map_of (cfg_accounts cfg) account of
                            None \<Rightarrow> Inl (''Cannot read properties of undefined (reading '' @ [CHR 0x27]
                                         @ ''user'' @ [CHR 0x27] @ '')'')
                          | Some accountConfig \<Rightarrow> Inr accountConfig)) (\<lambda>accountConfig.
        let mailOptions =
              \<lparr>mo_from = [CHR 0x22] @ ''Dirk Schulenburg'' @ [CHR 0x22] @ '' <''
                         @ (case acc_user accountConfig of None \<Rightarrow> ''undefined'' | Some u \<Rightarrow> u)
                         @ ''>'',
               mo_to = to, mo_subject = subject,
               mo_text = (case text of None \<Rightarrow> [] | Some t \<Rightarrow> t),
               mo_html = or_undefined html, mo_cc = or_undefined cc,
               mo_bcc = or_undefined bcc, mo_replyTo = or_undefined replyTo\<rparr> in
        io_bind (await_call (SendMail transporter mailOptions)
                   (lib_sendMail lib transporter mailOptions)) (\<lambda>info.
        io_return (JObj [(''success'', JBool True),
                         (''account'', JStr account),
                         (''messageId'', JStr (si_messageId info)),
                         (''to'', JStr to),
                         (''subject'', JStr subject),
                         (''accepted'', jstrings (si_accepted info)),
                         (''rejected'', jstrings (si_rejected info))])))))
       (\<lambda>error \<sigma>. (failure_report error, \<sigma>)) (new_session s)"

subsection \<open>The connection test endpoint\<close>

text \<open>
  \<^verbatim>\<open>GET /test/:account\<close> answers with the object itself (status 500 on failure); its
  failure object repeats the account.
\<close>

definition test_account :: "config \<Rightarrow> 's imap_lib \<Rightarrow> string \<Rightarrow> 's \<Rightarrow> json \<times> 's session" where
  "test_account cfg lib account s =
     try_catch
       (io_bind (assign_imap cfg account) (\<lambda>imap.
        io_bind (connectImap lib imap) (\<lambda>_.
        io_bind (listMailboxes lib) (\<lambda>boxes.
        let folders = flattenMailboxes boxes [] in
        io_bind imap_end (\<lambda>_.
        io_return (JObj [(''success'', JBool True),
                         (''account'', JStr account),
                         (''message'', JStr ''Connection successful''),
                         (''folderCount'', JNum (int (length folders))),
                         (''sampleFolders'', jstrings (map fd_name (take 10 folders)))]))))))
       (\<lambda>error \<sigma>. (JObj [(''success'', JBool False), (''account'', JStr account),
                             (''error'', JStr error)],
                       end_if_imap \<sigma>))
       (new_session s)"

subsection \<open>The operations offered to callers\<close>

text \<open>
  A call as it reaches a handler: one of the registered tools with its arguments (the
  schema's defaults already filled in), or the connection test endpoint.
\<close>

datatype request =
    ListAccounts
  | ListFolders string
  | ListEmails string string int string
  | MoveEmail string string int string
  | MoveByMessageId string string string string
  | DeleteEmail string string int
  | BulkMove string string "int list" string
  | MarkUnseen string string "int list option" bool
  | SendEmail string string string "string option" "string option" "string option"
              "string option" "string option"
  | TestConnection string

fun serve :: "config \<Rightarrow> 's imap_lib \<Rightarrow> request \<Rightarrow> 's \<Rightarrow> json \<times> 's session" where
  "serve cfg lib ListAccounts = imap_list_accounts cfg"
| "serve cfg lib (ListFolders account) = imap_list_folders cfg lib account"
| "serve cfg lib (ListEmails account folder limit criteria) =
     imap_list_emails cfg lib account folder limit criteria"
| "serve cfg lib (MoveEmail account sourceFolder uid targetFolder) =
     imap_move_email cfg lib account sourceFolder uid targetFolder"
| "serve cfg lib (MoveByMessageId account sourceFolder messageId targetFolder) =
     imap_move_by_message_id cfg lib account sourceFolder messageId targetFolder"
| "serve cfg lib (DeleteEmail account folder uid) = imap_delete_email cfg lib account folder uid"
| "serve cfg lib (BulkMove account sourceFolder uids targetFolder) =
     imap_bulk_move cfg lib account sourceFolder uids targetFolder"
| "serve cfg lib (MarkUnseen account folder uids all) =
     imap_mark_unseen cfg lib account folder uids all"
| "serve cfg lib (SendEmail account to subject text html cc bcc replyTo) =
     smtp_send_email cfg lib account to subject text html cc bcc replyTo"
| "serve cfg lib (TestConnection account) = test_account cfg lib account"

section \<open>Properties of reports and traces\<close>

fun account_arg :: "request \<Rightarrow> string option" where
  "account_arg ListAccounts = None"
| "account_arg (ListFolders account) = Some account"
| "account_arg (ListEmails account folder limit criteria) = Some account"
| "account_arg (MoveEmail account sourceFolder uid targetFolder) = Some account"
| "account_arg (MoveByMessageId account sourceFolder messageId targetFolder) = Some account"
| "account_arg (DeleteEmail account folder uid) = Some account"
| "account_arg (BulkMove account sourceFolder uids targetFolder) = Some account"
| "account_arg (MarkUnseen account folder uids all) = Some account"
| "account_arg (SendEmail account to subject text html cc bcc replyTo) = Some account"
| "account_arg (TestConnection account) = Some account"

text \<open>The operations that talk to the mail store (all but the listing of accounts and sending).\<close>

fun uses_imap :: "request \<Rightarrow> bool" where
  "uses_imap ListAccounts = False"
| "uses_imap (SendEmail account to subject text html cc bcc replyTo) = False"
| "uses_imap _ = True"

text \<open>The mailbox an operation works in, if it selects one.\<close>

fun mailbox_arg :: "request \<Rightarrow> string option" where
  "mailbox_arg (ListEmails account folder limit criteria) = Some folder"
| "mailbox_arg (MoveEmail account sourceFolder uid targetFolder) = Some sourceFolder"
| "mailbox_arg (MoveByMessageId account sourceFolder messageId targetFolder) = Some sourceFolder"
| "mailbox_arg (DeleteEmail account folder uid) = Some folder"
| "mailbox_arg (BulkMove account sourceFolder uids targetFolder) = Some sourceFolder"
| "mailbox_arg (MarkUnseen account folder uids all) = Some folder"
| "mailbox_arg _ = None"

fun is_bulk :: "request \<Rightarrow> bool" where
  "is_bulk (BulkMove account sourceFolder uids targetFolder) = True"
| "is_bulk _ = False"

fun is_test :: "request \<Rightarrow> bool" where
  "is_test (TestConnection account) = True"
| "is_test _ = False"

text \<open>An account is configured when both its user and its password are present (truthy).\<close>

definition configured :: "config \<Rightarrow> string \<Rightarrow> bool" where
  "configured cfg key =
     (case map_of (cfg_accounts cfg) key of
        None \<Rightarrow> False
      | Some a \<Rightarrow> truthy (acc_user a) \<and> truthy (acc_password a))"

definition opens_session :: "config \<Rightarrow> request \<Rightarrow> bool" where
  "opens_session cfg r =
     (uses_imap r \<and> (case account_arg r of None \<Rightarrow> False | Some a \<Rightarrow> configured cfg a))"

fun is_mutation :: "command \<Rightarrow> bool" where
  "is_mutation (Move uid targetFolder) = True"
| "is_mutation (AddFlags uids flags) = True"
| "is_mutation (DelFlags uids flags) = True"
| "is_mutation Expunge = True"
| "is_mutation _ = False"

fun is_move :: "command \<Rightarrow> bool" where
  "is_move (Move uid targetFolder) = True"
| "is_move _ = False"

definition closes :: "event list \<Rightarrow> nat" where
  "closes tr = length (filter (\<lambda>ev. fst ev = End) tr)"

text \<open>
  After a failed call nothing but the closing of the session follows; with
  \<open>per_item\<close> set, a failed move is the exception and the sequence goes on.
\<close>

fun aborts_on_failure :: "bool \<Rightarrow> event list \<Rightarrow> bool" where
  "aborts_on_failure per_item [] = True"
| "aborts_on_failure per_item ((c, Done) # evs) = aborts_on_failure per_item evs"
| "aborts_on_failure per_item ((c, Failed e) # evs) =
     (if per_item \<and> is_move c then aborts_on_failure per_item evs else evs = [(End, Done)])"

text \<open>
  Scanning a trace with the mailbox currently selected read-write (\<open>None\<close> when none
  is, or when the selection is read-only): every mutation must find mailbox \<open>mb\<close>
  selected read-write.
\<close>

fun mutations_guarded :: "string option \<Rightarrow> string option \<Rightarrow> event list \<Rightarrow> bool" where
  "mutations_guarded mb sel [] = True"
| "mutations_guarded mb sel ((OpenBox f readOnly, out) # evs) =
     mutations_guarded mb (if out = Done \<and> \<not> readOnly then Some f else None) evs"
| "mutations_guarded mb sel ((End, out) # evs) = mutations_guarded mb None evs"
| "mutations_guarded mb sel ((c, out) # evs) =
     ((is_mutation c \<longrightarrow> sel \<noteq> None \<and> sel = mb) \<and> mutations_guarded mb sel evs)"






section \<open>A concrete configuration and two concrete servers\<close>

definition demo_account :: "string option \<Rightarrow> string option \<Rightarrow> account" where
  "demo_account u p =
     \<lparr>acc_name = ''one.com'', acc_host = ''imap.one.com'', acc_port = 993, acc_user = u,
      acc_password = p, acc_tls = True,
      acc_smtp = Some \<lparr>smtp_host = ''send.one.com'', smtp_port = 465, smtp_secure = True\<rparr>\<rparr>"

definition demo_config :: config where
  "demo_config =
     \<lparr>cfg_port = 8001, cfg_apiKey = [],
      cfg_accounts = [(''onecom'', demo_account (Some ''me@example.org'') (Some ''secret'')),
                      (''gmx'', demo_account (Some ''me@gmx.net'') None)]\<rparr>"

text \<open>
  A server without state that accepts every call, except that message 999 does not
  exist; a search finds \<open>found\<close>, and the folder listing is \<open>tree\<close>.
\<close>

definition demo_lib :: "int list \<Rightarrow> (string \<times> box) list \<Rightarrow> unit imap_lib" where
  "demo_lib found tree =
     \<lparr>lib_connect = (\<lambda>opts s. (Inr (), s)),
      lib_openBox = (\<lambda>mailbox readOnly s. (Inr (), s)),
      lib_getBoxes = (\<lambda>s. (Inr tree, s)),
      lib_move = (\<lambda>uid targetFolder s. (if uid = 999 then Inl ''No such message'' else Inr (), s)),
      lib_addFlags = (\<lambda>uids flags s. (Inr (), s)),
      lib_delFlags = (\<lambda>uids flags s. (Inr (), s)),
      lib_expunge = (\<lambda>s. (Inr (), s)),
      lib_search = (\<lambda>criteria s. (Inr found, s)),
      lib_fetch = (\<lambda>uids bodies struct s. (Inr [], s)),
      lib_sendMail = (\<lambda>transporter mailOptions s. (Inl ''Connection refused'', s))\<rparr>"

text \<open>The same server behind a network that refuses the connection.\<close>

definition unreachable_lib :: "unit imap_lib" where
  "unreachable_lib = (demo_lib [] [])\<lparr>lib_connect := (\<lambda>opts s. (Inl ''connect ECONNREFUSED'', s))\<rparr>"


text \<open>A server that accepts every call and keeps the list of the mutations applied to it.\<close>

definition recording_lib :: "int list \<Rightarrow> command list imap_lib" where
  "recording_lib found =
     \<lparr>lib_connect = (\<lambda>opts s. (Inr (), s)),
      lib_openBox = (\<lambda>mailbox readOnly s. (Inr (), s)),
      lib_getBoxes = (\<lambda>s. (Inr [], s)),
      lib_move = (\<lambda>uid targetFolder s. (Inr (), s @ [Move uid targetFolder])),
      lib_addFlags = (\<lambda>uids flags s. (Inr (), s @ [AddFlags uids flags])),
      lib_delFlags = (\<lambda>uids flags s. (Inr (), s @ [DelFlags uids flags])),
      lib_expunge = (\<lambda>s. (Inr (), s @ [Expunge])),
      lib_search = (\<lambda>criteria s. (Inr found, s)),
      lib_fetch = (\<lambda>uids bodies struct s. (Inr [], s)),
      lib_sendMail = (\<lambda>transporter mailOptions s. (Inl ''Connection refused'', s))\<rparr>"

definition demo_options :: imap_options where
  "demo_options = \<lparr>io_user = Some ''me@example.org'', io_password = Some ''secret'',
                    io_host = ''imap.one.com'', io_port = 993, io_tls = True\<rparr>"

definition report_field :: "string \<Rightarrow> json \<Rightarrow> json option" where
  "report_field k rep = (case rep of JObj props \<Rightarrow> map_of props k | _ \<Rightarrow> None)"

section \<open>The flattener as the specification words it\<close>

text \<open>
  The specification's reading of the traversal, for comparison with the code: depth
  first, a node before its children, the children in the given order, and below a
  parent always ``parent path, delimiter, own name''. The parent path is explicit
  (\<open>None\<close> at the top level) instead of being recognised by its truthiness.
\<close>

function flatten_by_spec :: "(string \<times> box) list \<Rightarrow> string option \<Rightarrow> folder list" where
  "flatten_by_spec [] parent = []"
| "flatten_by_spec ((nm, Box d a ch) # rest) parent =
     (let fullName = (case parent of None \<Rightarrow> nm | Some p \<Rightarrow> p @ delim_text d @ nm);
          here = \<lparr>fd_name = fullName, fd_delimiter = d,
                  fd_flags = (case a of None \<Rightarrow> [] | Some fs \<Rightarrow> fs)\<rparr>;
          below = (case ch of None \<Rightarrow> [] | Some cs \<Rightarrow> flatten_by_spec cs (Some fullName))
      in here # below @ flatten_by_spec rest parent)"
  by pat_completeness auto
termination
  by (relation "measure (\<lambda>(bs, p). size_list (size_prod (\<lambda>_. 0) size) bs)") auto

section \<open>Running a handler step by step\<close>

lemma io_bind_return [simp]: "io_bind (io_return x) f \<sigma> = f x \<sigma>"
  by (simp add: io_bind_def io_return_def)

lemma io_bind_end [simp]:
  "io_bind imap_end f \<sigma> = f () (\<sigma>\<lparr>trace := trace \<sigma> @ [(End, Done)]\<rparr>)"
  by (simp add: io_bind_def imap_end_def)

lemma io_bind_await:
  "io_bind (await_call c g) f \<sigma> =
     (case g (ses_server \<sigma>) of
        (Inl e, s') \<Rightarrow> (Inl e, \<sigma>\<lparr>ses_server := s', trace := trace \<sigma> @ [(c, Failed e)]\<rparr>)
      | (Inr x, s') \<Rightarrow> f x (\<sigma>\<lparr>ses_server := s', trace := trace \<sigma> @ [(c, Done)]\<rparr>))"
  by (simp add: io_bind_def await_call_def outcome_of_def split: prod.splits sum.splits)

lemma io_bind_assign:
  "io_bind (assign_imap cfg a) f \<sigma> =
     (case createImapConnection cfg a of
        Inl e \<Rightarrow> (Inl e, \<sigma>)
      | Inr c \<Rightarrow> f c (\<sigma>\<lparr>ses_imap := Some c\<rparr>))"
  by (simp add: io_bind_def assign_imap_def split: sum.splits)

lemma io_bind_assoc: "io_bind (io_bind m f) g = io_bind m (\<lambda>x. io_bind (f x) g)"
  by (rule ext) (simp add: io_bind_def split: prod.splits sum.splits)

lemma search_criteria_all:
  "(if criteria = ''ALL'' then [Plain ''ALL''] else [Plain criteria]) = [Plain criteria]"
  by simp

lemma io_bind_lift:
  "io_bind (io_lift r) f \<sigma> = (case r of Inl e \<Rightarrow> (Inl e, \<sigma>) | Inr x \<Rightarrow> f x \<sigma>)"
  by (simp add: io_bind_def io_lift_def split: sum.splits)

lemma createImapConnection_configured:
  "(\<exists>c. createImapConnection cfg key = Inr c) = configured cfg key"
  by (auto simp: createImapConnection_def configured_def split: option.splits)

lemma createImapConnection_not_configured:
  "\<not> configured cfg key \<Longrightarrow> createImapConnection cfg key = Inl (not_configured key)"
  by (auto simp: createImapConnection_def configured_def split: option.splits)

lemma bulk_loop_effect:
  "bulk_loop lib t uids rs \<sigma> = (rs', \<sigma>') \<Longrightarrow>
     \<exists>outs. length outs = length uids \<and>
            trace \<sigma>' = trace \<sigma> @ zip (map (\<lambda>u. Move u t) uids) outs \<and>
            ses_imap \<sigma>' = ses_imap \<sigma> \<and>
            rs' = rs @ map (\<lambda>(u, out). \<lparr>it_uid = u, it_success = (out = Done),
                                           it_error = (case out of Done \<Rightarrow> None | Failed e \<Rightarrow> Some e)\<rparr>)
                         (zip uids outs)"
proof (induction uids arbitrary: rs \<sigma>)
  case Nil
  then show ?case by auto
next
  case (Cons u us)
  obtain r \<sigma>1 where step: "moveEmail lib u t \<sigma> = (r, \<sigma>1)" by (cases "moveEmail lib u t \<sigma>")
  have \<sigma>1: "trace \<sigma>1 = trace \<sigma> @ [(Move u t, outcome_of r)]" "ses_imap \<sigma>1 = ses_imap \<sigma>"
    using step by (auto simp: moveEmail_def await_call_def split: prod.splits)
  let ?it = "\<lparr>it_uid = u, it_success = (outcome_of r = Done),
               it_error = (case outcome_of r of Done \<Rightarrow> None | Failed e \<Rightarrow> Some e)\<rparr>"
  have "bulk_loop lib t us (rs @ [?it]) \<sigma>1 = (rs', \<sigma>')"
    using Cons.prems step by (cases r) (auto simp: outcome_of_def)
  from Cons.IH[OF this] obtain outs where
    o: "length outs = length us"
       "trace \<sigma>' = trace \<sigma>1 @ zip (map (\<lambda>u. Move u t) us) outs"
       "ses_imap \<sigma>' = ses_imap \<sigma>1"
       "rs' = (rs @ [?it]) @ map (\<lambda>(u, out). \<lparr>it_uid = u, it_success = (out = Done),
                                           it_error = (case out of Done \<Rightarrow> None | Failed e \<Rightarrow> Some e)\<rparr>)
                         (zip us outs)"
    by blast
  show ?case
    by (rule exI[of _ "outcome_of r # outs"]) (simp add: o \<sigma>1)
qed

lemmas handler_defs = imap_list_accounts_def imap_list_folders_def imap_list_emails_def
  imap_move_email_def imap_move_by_message_id_def imap_delete_email_def
  imap_mark_unseen_def smtp_send_email_def test_account_def

lemmas run_simps = io_bind_assoc search_criteria_all io_return_def try_catch_def
  io_bind_await io_bind_assign io_bind_lift on_error_def end_if_imap_def imap_end_def new_session_def connectImap_def openMailbox_def
  listMailboxes_def moveEmail_def deleteEmail_def removeFlags_def searchEmails_def
  fetchEmails_def

lemma io_bind_bulk:
  "io_bind (\<lambda>\<sigma>. case bulk_loop lib t uids rs \<sigma> of (rs', \<sigma>') \<Rightarrow> (Inr rs', \<sigma>')) f \<sigma> =
     (case bulk_loop lib t uids rs \<sigma> of (rs', \<sigma>') \<Rightarrow> f rs' \<sigma>')"
  by (simp add: io_bind_def split: prod.splits)

lemma closes_append [simp]: "closes (xs @ ys) = closes xs + closes ys"
  by (simp add: closes_def)

lemma closes_moves [simp]: "closes (zip (map (\<lambda>u. Move u t) uids) outs) = 0"
  by (induction uids arbitrary: outs) (auto simp: closes_def zip_Cons1 split: list.splits)

lemma closes_simps [simp]: "closes [] = 0" "closes ((End, out) # tr) = Suc (closes tr)"
  "c \<noteq> End \<Longrightarrow> closes ((c, out) # tr) = closes tr"
  by (auto simp: closes_def)

lemma aborts_moves [simp]:
  "aborts_on_failure True (zip (map (\<lambda>u. Move u t) uids) outs @ tr) = aborts_on_failure True tr"
proof (induction uids arbitrary: outs)
  case Nil
  then show ?case by simp
next
  case (Cons u us)
  show ?case
  proof (cases outs)
    case Nil
    then show ?thesis by simp
  next
    case (Cons out outs')
    then show ?thesis using Cons.IH by (cases out) auto
  qed
qed

lemma bulk_sessions:
  assumes c: "createImapConnection cfg account = Inr c"
  shows "let tr = trace (snd (imap_bulk_move cfg lib account sourceFolder uids targetFolder s))
         in closes tr = 1 \<and> last tr = (End, Done) \<and> aborts_on_failure True tr"
  unfolding imap_bulk_move_def Let_def
  by (simp add: run_simps io_bind_bulk c split: prod.splits sum.splits)
     (auto dest!: bulk_loop_effect)

lemma createImapConnection_cases:
  obtains (ok) c where "createImapConnection cfg key = Inr c" "configured cfg key"
  | (bad) "createImapConnection cfg key = Inl (not_configured key)" "\<not> configured cfg key"
  using createImapConnection_configured[of cfg key] createImapConnection_not_configured[of cfg key]
  by (cases "configured cfg key") auto

lemma guarded_moves:
  "sel \<noteq> None \<Longrightarrow> sel = mb \<Longrightarrow>
   mutations_guarded mb sel (zip (map (\<lambda>u. Move u t) uids) outs @ tr) = mutations_guarded mb sel tr"
  by (induction uids arbitrary: outs) (auto simp: zip_Cons1 split: list.splits)

lemma bulk_guarded:
  "mutations_guarded (Some sourceFolder) None
     (trace (snd (imap_bulk_move cfg lib account sourceFolder uids targetFolder s)))"
  unfolding imap_bulk_move_def
  by (cases rule: createImapConnection_cases[of cfg account])
     (auto simp: run_simps io_bind_bulk guarded_moves Let_def split: prod.splits sum.splits
           dest!: bulk_loop_effect)





section \<open>The concrete servers\<close>

lemma demo_connection: "createImapConnection demo_config ''onecom'' = Inr demo_options"
  by (simp add: createImapConnection_def demo_config_def demo_account_def demo_options_def)

lemma demo_lib_simps [simp]:
  "lib_connect (demo_lib found tree) = (\<lambda>opts s. (Inr (), s))"
  "lib_openBox (demo_lib found tree) = (\<lambda>mailbox readOnly s. (Inr (), s))"
  "lib_getBoxes (demo_lib found tree) = (\<lambda>s. (Inr tree, s))"
  "lib_move (demo_lib found tree) = (\<lambda>uid targetFolder s. (if uid = 999 then Inl ''No such message'' else Inr (), s))"
  "lib_addFlags (demo_lib found tree) = (\<lambda>uids flags s. (Inr (), s))"
  "lib_delFlags (demo_lib found tree) = (\<lambda>uids flags s. (Inr (), s))"
  "lib_expunge (demo_lib found tree) = (\<lambda>s. (Inr (), s))"
  "lib_search (demo_lib found tree) = (\<lambda>criteria s. (Inr found, s))"
  "lib_fetch (demo_lib found tree) = (\<lambda>uids bodies struct s. (Inr [], s))"
  "lib_sendMail (demo_lib found tree) = (\<lambda>transporter mailOptions s. (Inl ''Connection refused'', s))"
  by (simp_all add: demo_lib_def)

lemma unreachable_lib_connect [simp]:
  "lib_connect unreachable_lib = (\<lambda>opts s. (Inl ''connect ECONNREFUSED'', s))"
  by (simp add: unreachable_lib_def)

lemma recording_lib_simps [simp]:
  "lib_connect (recording_lib found) = (\<lambda>opts s. (Inr (), s))"
  "lib_openBox (recording_lib found) = (\<lambda>mailbox readOnly s. (Inr (), s))"
  "lib_move (recording_lib found) = (\<lambda>uid targetFolder s. (Inr (), s @ [Move uid targetFolder]))"
  "lib_delFlags (recording_lib found) = (\<lambda>uids flags s. (Inr (), s @ [DelFlags uids flags]))"
  "lib_search (recording_lib found) = (\<lambda>criteria s. (Inr found, s))"
  by (simp_all add: recording_lib_def)

lemma bulk_loop_demo:
  "999 \<notin> set uids \<Longrightarrow>
   bulk_loop (demo_lib found tree) t uids rs \<sigma> =
     (rs @ map (\<lambda>u. \<lparr>it_uid = u, it_success = True, it_error = None\<rparr>) uids,
      \<sigma>\<lparr>trace := trace \<sigma> @ map (\<lambda>u. (Move u t, Done)) uids\<rparr>)"
  by (induction uids arbitrary: rs \<sigma>)
     (auto simp: moveEmail_def await_call_def outcome_of_def)

lemma io_bind_step: "io_bind (\<lambda>\<sigma>. (Inr x, g \<sigma>)) f \<sigma>0 = f x (g \<sigma>0)"
  by (simp add: io_bind_def)

lemma count_moves: "length (filter (\<lambda>ev. is_move (fst ev)) (map (\<lambda>u. (Move u t, Done)) uids)) = length uids"
  by (induction uids) auto

lemma it_success_all: "filter it_success (map (\<lambda>u. \<lparr>it_uid = u, it_success = True, it_error = None\<rparr>) uids)
   = map (\<lambda>u. \<lparr>it_uid = u, it_success = True, it_error = None\<rparr>) uids"
  by (induction uids) auto

lemma bulk_move_demo:
  assumes "999 \<notin> set uids"
  shows "report_field ''success''
           (fst (imap_bulk_move demo_config (demo_lib [] []) ''onecom'' ''INBOX'' uids ''Archive'' ()))
           = Some (JBool True)"
    and "report_field ''succeeded''
           (fst (imap_bulk_move demo_config (demo_lib [] []) ''onecom'' ''INBOX'' uids ''Archive'' ()))
           = Some (JNum (int (length uids)))"
    and "length (filter (\<lambda>ev. is_move (fst ev))
           (trace (snd (imap_bulk_move demo_config (demo_lib [] []) ''onecom'' ''INBOX'' uids
                          ''Archive'' ())))) = length uids"
  unfolding imap_bulk_move_def
  by (simp_all add: run_simps io_bind_bulk demo_connection bulk_loop_demo[OF assms]
                    report_field_def Let_def count_moves it_success_all io_bind_step)

section \<open>The flattener against the specification's wording\<close>

lemma flatten_nested:
  "p \<noteq> [] \<Longrightarrow> flattenMailboxes bs p = flatten_by_spec bs (Some p)"
proof (induction bs p rule: flattenMailboxes.induct)
  case (1 prefix)
  then show ?case by simp
next
  case (2 nm d a ch rest prefix)
  then show ?case by (cases ch) (simp_all add: Let_def)
qed

lemma flatten_top_level:
  "\<forall>(nm, b) \<in> set bs. nm \<noteq> [] \<Longrightarrow> flattenMailboxes bs [] = flatten_by_spec bs None"
proof (induction bs)
  case Nil
  then show ?case by simp
next
  case (Cons x bs)
  obtain nm d a ch where x: "x = (nm, Box d a ch)" by (cases x, rename_tac nm b, case_tac b) auto
  with Cons show ?case by (cases ch) (simp_all add: Let_def flatten_nested)
qed

lemma flatten_append:
  "flattenMailboxes (bs @ cs) p = flattenMailboxes bs p @ flattenMailboxes cs p"
  by (induction bs p rule: flattenMailboxes.induct) (simp_all add: Let_def)

section \<open>The claims\<close>

subsection \<open>C1: the cap of 100 identifiers on a bulk move\<close>

text \<open>
  Claim C1: a bulk move whose identifier list has more than 100 items fails with
  TooManyItems before any protocol command is issued. The handler has no such check:
  on the accepting server, 101 identifiers are connected for, the mailbox is opened,
  all 101 moves are issued and the report says success with 101 succeeded.
\<close>

theorem bulk_move_over_cap_runs:
  "report_field ''success''
     (fst (imap_bulk_move demo_config (demo_lib [] []) ''onecom'' ''INBOX''
             (map int [1..<102]) ''Archive'' ())) = Some (JBool True)
   \<and> report_field ''succeeded''
     (fst (imap_bulk_move demo_config (demo_lib [] []) ''onecom'' ''INBOX''
             (map int [1..<102]) ''Archive'' ())) = Some (JNum 101)
   \<and> length (filter (\<lambda>ev. is_move (fst ev))
       (trace (snd (imap_bulk_move demo_config (demo_lib [] []) ''onecom'' ''INBOX''
             (map int [1..<102]) ''Archive'' ())))) = 101"
proof -
  have no999: "999 \<notin> set (map int [1..<102])" by auto
  have len: "length (map int [1..<102]) = 101" by simp
  show ?thesis
    using bulk_move_demo[OF no999] unfolding len by simp
qed

subsection \<open>C2: every operation answers with a structured report\<close>




subsection \<open>C3: a bulk move records every item\<close>

text \<open>
  Claim C3: on an opened session (the account is configured, connecting and selecting
  the source mailbox succeed), a bulk move of N identifiers issues one move per
  identifier in input order whatever the earlier moves answered, returns one result
  per identifier in input order whose success flag is that move's outcome, counts
  succeeded and failed so that they sum to N, and reports success. This holds for
  every N, in particular for N up to 100.
\<close>

theorem bulk_move_per_item:
  assumes "createImapConnection cfg account = Inr c"
    and "lib_connect lib c s = (Inr (), s1)"
    and "lib_openBox lib sourceFolder False s1 = (Inr (), s2)"
  shows "\<exists>results outs \<sigma>.
           imap_bulk_move cfg lib account sourceFolder uids targetFolder s =
             (JObj [(''success'', JBool True),
                    (''account'', JStr account),
                    (''action'', JStr ''bulk_move''),
                    (''targetFolder'', JStr targetFolder),
                    (''total'', JNum (int (length uids))),
                    (''succeeded'', JNum (int (length (filter it_success results)))),
                    (''failed'', JNum (int (length (filter (\<lambda>r. \<not> it_success r) results)))),
                    (''results'', JArr (map item_json results))], \<sigma>) \<and>
           length results = length uids \<and>
           map it_uid results = uids \<and>
           length (filter it_success results) + length (filter (\<lambda>r. \<not> it_success r) results)
             = length uids \<and>
           length outs = length uids \<and>
           trace \<sigma> = [(Connect c, Done), (OpenBox sourceFolder False, Done)]
                      @ zip (map (\<lambda>u. Move u targetFolder) uids) outs @ [(End, Done)] \<and>
           map it_success results = map (\<lambda>out. out = Done) outs"
proof -
  let ?\<sigma>0 = "\<lparr>ses_server = s2, ses_imap = Some c,
               trace = [(Connect c, Done), (OpenBox sourceFolder False, Done)]\<rparr>"
  obtain rs \<sigma>1 where loop: "bulk_loop lib targetFolder uids [] ?\<sigma>0 = (rs, \<sigma>1)"
    by (cases "bulk_loop lib targetFolder uids [] ?\<sigma>0")
  from bulk_loop_effect[OF loop] obtain outs where
    outs: "length outs = length uids"
      "trace \<sigma>1 = trace ?\<sigma>0 @ zip (map (\<lambda>u. Move u targetFolder) uids) outs"
      "rs = [] @ map (\<lambda>(u, out). \<lparr>it_uid = u, it_success = (out = Done),
                                   it_error = (case out of Done \<Rightarrow> None | Failed e \<Rightarrow> Some e)\<rparr>)
                   (zip uids outs)"
    by blast
  have len: "length rs = length uids" using outs(1,3) by simp
  have uids: "map it_uid rs = uids"
    unfolding outs(3) using outs(1)
    by (induction uids outs rule: list_induct2') auto
  have succ: "map it_success rs = map (\<lambda>out. out = Done) outs"
    unfolding outs(3) using outs(1)
    by (induction uids outs rule: list_induct2') auto
  have sum: "length (filter it_success rs) + length (filter (\<lambda>r. \<not> it_success r) rs) = length uids"
    using sum_length_filter_compl[of it_success rs] len by simp
  have failed: "int (length uids) - int (length (filter it_success rs))
                  = int (length (filter (\<lambda>r. \<not> it_success r) rs))"
    using sum by linarith
  have run: "imap_bulk_move cfg lib account sourceFolder uids targetFolder s =
             (JObj [(''success'', JBool True),
                    (''account'', JStr account),
                    (''action'', JStr ''bulk_move''),
                    (''targetFolder'', JStr targetFolder),
                    (''total'', JNum (int (length uids))),
                    (''succeeded'', JNum (int (length (filter it_success rs)))),
                    (''failed'', JNum (int (length (filter (\<lambda>r. \<not> it_success r) rs)))),
                    (''results'', JArr (map item_json rs))],
              \<sigma>1\<lparr>trace := trace \<sigma>1 @ [(End, Done)]\<rparr>)"
    unfolding imap_bulk_move_def
    by (simp add: run_simps io_bind_bulk assms loop Let_def failed)
  show ?thesis
    apply (rule exI[of _ rs], rule exI[of _ outs],
           rule exI[of _ "\<sigma>1\<lparr>trace := trace \<sigma>1 @ [(End, Done)]\<rparr>"])
    apply (simp add: run len uids sum outs(1,2) succ)
    done
qed

text \<open>The specification's example: identifiers 101, 102 and 999, of which 999 does not exist.\<close>

theorem bulk_move_per_item_witness:
  "createImapConnection demo_config ''onecom'' = Inr demo_options
   \<and> lib_connect (demo_lib [] []) demo_options () = (Inr (), ())
   \<and> lib_openBox (demo_lib [] []) ''INBOX'' False () = (Inr (), ())
   \<and> (\<exists>results outs \<sigma>.
           imap_bulk_move demo_config (demo_lib [] []) ''onecom'' ''INBOX'' [101, 102, 999]
               ''INBOX.Archive'' () =
             (JObj [(''success'', JBool True),
                    (''account'', JStr ''onecom''),
                    (''action'', JStr ''bulk_move''),
                    (''targetFolder'', JStr ''INBOX.Archive''),
                    (''total'', JNum (int (length [101, 102, 999 :: int]))),
                    (''succeeded'', JNum (int (length (filter it_success results)))),
                    (''failed'', JNum (int (length (filter (\<lambda>r. \<not> it_success r) results)))),
                    (''results'', JArr (map item_json results))], \<sigma>) \<and>
           length results = length [101, 102, 999 :: int] \<and>
           map it_uid results = [101, 102, 999] \<and>
           length (filter it_success results) + length (filter (\<lambda>r. \<not> it_success r) results)
             = length [101, 102, 999 :: int] \<and>
           length outs = length [101, 102, 999 :: int] \<and>
           trace \<sigma> = [(Connect demo_options, Done), (OpenBox ''INBOX'' False, Done)]
                      @ zip (map (\<lambda>u. Move u ''INBOX.Archive'') [101, 102, 999]) outs
                      @ [(End, Done)] \<and>
           map it_success results = map (\<lambda>out. out = Done) outs)"
proof -
  have h1: "createImapConnection demo_config ''onecom'' = Inr demo_options"
    by (rule demo_connection)
  have h2: "lib_connect (demo_lib [] []) demo_options () = (Inr (), ())" by simp
  have h3: "lib_openBox (demo_lib [] []) ''INBOX'' False () = (Inr (), ())" by simp
  note t = bulk_move_per_item[OF h1 h2 h3, of "[101, 102, 999]" "''INBOX.Archive''"]
  show ?thesis
    by (intro conjI) (rule h1, rule h2, rule h3, rule t)
qed

subsection \<open>C4: no match for a global identifier\<close>

text \<open>
  Claim C4: when the search for the Message-ID in the selected source mailbox finds
  nothing, moving by Message-ID returns a report with the success flag false and the
  not-found message, closes the session, and issues no move, flag change or expunge.
\<close>

theorem move_by_message_id_not_found:
  assumes "createImapConnection cfg account = Inr c"
    and "lib_connect lib c s = (Inr (), s1)"
    and "lib_openBox lib sourceFolder False s1 = (Inr (), s2)"
    and "lib_search lib [Nested [''HEADER'', ''MESSAGE-ID'', messageId]] s2 = (Inr [], s3)"
  shows "imap_move_by_message_id cfg lib account sourceFolder messageId targetFolder s =
           (JObj [(''success'', JBool False), (''error'', JStr (not_found messageId sourceFolder))],
            \<lparr>ses_server = s3, ses_imap = Some c,
             trace = [(Connect c, Done), (OpenBox sourceFolder False, Done),
                      (Search [Nested [''HEADER'', ''MESSAGE-ID'', messageId]], Done),
                      (End, Done)]\<rparr>)
         \<and> filter (\<lambda>ev. is_mutation (fst ev))
               (trace (snd (imap_move_by_message_id cfg lib account sourceFolder messageId
                              targetFolder s))) = []"
  unfolding imap_move_by_message_id_def
  by (simp add: run_simps assms)

theorem move_by_message_id_not_found_witness:
  "createImapConnection demo_config ''onecom'' = Inr demo_options
   \<and> lib_connect (demo_lib [] []) demo_options () = (Inr (), ())
   \<and> lib_openBox (demo_lib [] []) ''INBOX'' False () = (Inr (), ())
   \<and> lib_search (demo_lib [] []) [Nested [''HEADER'', ''MESSAGE-ID'', ''<a@b>'']] () = (Inr [], ())
   \<and> imap_move_by_message_id demo_config (demo_lib [] []) ''onecom'' ''INBOX'' ''<a@b>''
         ''INBOX.Archive'' () =
           (JObj [(''success'', JBool False), (''error'', JStr (not_found ''<a@b>'' ''INBOX''))],
            \<lparr>ses_server = (), ses_imap = Some demo_options,
             trace = [(Connect demo_options, Done), (OpenBox ''INBOX'' False, Done),
                      (Search [Nested [''HEADER'', ''MESSAGE-ID'', ''<a@b>'']], Done),
                      (End, Done)]\<rparr>)
   \<and> filter (\<lambda>ev. is_mutation (fst ev))
         (trace (snd (imap_move_by_message_id demo_config (demo_lib [] []) ''onecom'' ''INBOX''
                        ''<a@b>'' ''INBOX.Archive'' ()))) = []"
proof -
  have h1: "createImapConnection demo_config ''onecom'' = Inr demo_options"
    by (rule demo_connection)
  have h2: "lib_connect (demo_lib [] []) demo_options () = (Inr (), ())" by simp
  have h3: "lib_openBox (demo_lib [] []) ''INBOX'' False () = (Inr (), ())" by simp
  have h4: "lib_search (demo_lib [] []) [Nested [''HEADER'', ''MESSAGE-ID'', ''<a@b>'']] ()
              = (Inr [], ())" by simp
  show ?thesis
    using h1 h2 h3 h4
      move_by_message_id_not_found[OF h1 h2 h3 h4, of "''INBOX.Archive''"]
    by simp
qed

subsection \<open>C5: several matches for a global identifier\<close>

text \<open>
  Claim C5: when the search finds more than one message, exactly the first identifier
  of the search result is acted upon: the library's move is applied to it, once, in
  the state the search left, and the server ends in the state that move leaves. The
  calls made are connect, select, search, that one move with its outcome, and the
  close; no other match is touched. The report is the success report naming that
  identifier when the move is accepted, and the move's error otherwise.
\<close>

theorem move_by_message_id_first_match:
  assumes "createImapConnection cfg account = Inr c"
    and "lib_connect lib c s = (Inr (), s1)"
    and "lib_openBox lib sourceFolder False s1 = (Inr (), s2)"
    and "lib_search lib [Nested [''HEADER'', ''MESSAGE-ID'', messageId]] s2
           = (Inr (uid # uid' # others), s3)"
  shows "imap_move_by_message_id cfg lib account sourceFolder messageId targetFolder s =
           (case lib_move lib uid targetFolder s3 of
              (Inr ok, s4) \<Rightarrow>
                (JObj [(''success'', JBool True),
                       (''account'', JStr account),
                       (''action'', JStr ''moved''),
                       (''messageId'', JStr messageId),
                       (''uid'', JNum uid),
                       (''from'', JStr sourceFolder),
                       (''to'', JStr targetFolder)],
                 \<lparr>ses_server = s4, ses_imap = Some c,
                  trace = [(Connect c, Done), (OpenBox sourceFolder False, Done),
                           (Search [Nested [''HEADER'', ''MESSAGE-ID'', messageId]], Done),
                           (Move uid targetFolder, Done), (End, Done)]\<rparr>)
            | (Inl error, s4) \<Rightarrow>
                (JObj [(''success'', JBool False), (''error'', JStr error)],
                 \<lparr>ses_server = s4, ses_imap = Some c,
                  trace = [(Connect c, Done), (OpenBox sourceFolder False, Done),
                           (Search [Nested [''HEADER'', ''MESSAGE-ID'', messageId]], Done),
                           (Move uid targetFolder, Failed error), (End, Done)]\<rparr>))"
  unfolding imap_move_by_message_id_def
  by (simp add: run_simps assms failure_report_def split: prod.splits sum.splits)

theorem move_by_message_id_first_match_witness:
  "createImapConnection demo_config ''onecom'' = Inr demo_options
   \<and> lib_connect (recording_lib [7, 8, 9]) demo_options [] = (Inr (), [])
   \<and> lib_openBox (recording_lib [7, 8, 9]) ''INBOX'' False [] = (Inr (), [])
   \<and> lib_search (recording_lib [7, 8, 9]) [Nested [''HEADER'', ''MESSAGE-ID'', ''<a@b>'']] []
       = (Inr [7, 8, 9], [])
   \<and> imap_move_by_message_id demo_config (recording_lib [7, 8, 9]) ''onecom'' ''INBOX''
         ''<a@b>'' ''INBOX.Archive'' []
       = (JObj [(''success'', JBool True),
                (''account'', JStr ''onecom''),
                (''action'', JStr ''moved''),
                (''messageId'', JStr ''<a@b>''),
                (''uid'', JNum 7),
                (''from'', JStr ''INBOX''),
                (''to'', JStr ''INBOX.Archive'')],
          \<lparr>ses_server = [Move 7 ''INBOX.Archive''], ses_imap = Some demo_options,
           trace = [(Connect demo_options, Done), (OpenBox ''INBOX'' False, Done),
                    (Search [Nested [''HEADER'', ''MESSAGE-ID'', ''<a@b>'']], Done),
                    (Move 7 ''INBOX.Archive'', Done), (End, Done)]\<rparr>)"
proof -
  have h1: "createImapConnection demo_config ''onecom'' = Inr demo_options"
    by (rule demo_connection)
  have h2: "lib_connect (recording_lib [7, 8, 9]) demo_options [] = (Inr (), [])" by simp
  have h3: "lib_openBox (recording_lib [7, 8, 9]) ''INBOX'' False [] = (Inr (), [])" by simp
  have h4: "lib_search (recording_lib [7, 8, 9]) [Nested [''HEADER'', ''MESSAGE-ID'', ''<a@b>'']] []
              = (Inr [7, 8, 9], [])" by simp
  show ?thesis
    using h1 h2 h3 h4
      move_by_message_id_first_match[OF h1 h2 h3 h4, of "''INBOX.Archive''"]
    by simp
qed

subsection \<open>C6: the flattener\<close>

text \<open>
  Claim C6: for every folder tree the flattener lists the folders depth first, each
  parent right before its children, and the full path of a descendant is its parent's
  full path, the delimiter and its own name. The code tells a nested call from the top
  level by the truthiness of the prefix, so below a top-level entry whose name is empty
  the children get their bare names: the tree the library builds for the mailbox
  \<^verbatim>\<open>/foo\<close> flattens to the empty name and \<^verbatim>\<open>foo\<close>, not \<^verbatim>\<open>/foo\<close>. On
  trees without an empty top-level name the paths of the code and of the
  specification's wording agree. The order is that of the enumeration of each level,
  which is not the server's order where names are integer-like.
\<close>

theorem flatten_child_of_empty_path:
  "map fd_name (flattenMailboxes
      [('''', Box DUndefined None (Some [(''foo'', Box (DStr ''/'') (Some []) None)]))] [])
     = ['''', ''foo'']
   \<and> map fd_name (flatten_by_spec
      [('''', Box DUndefined None (Some [(''foo'', Box (DStr ''/'') (Some []) None)]))] None)
     = ['''', ''/foo'']"
  by simp

subsection \<open>C7: the session is closed exactly once\<close>

text \<open>
  Claim C7: for every operation and every server, if the operation opens a session
  (it talks to the mail store and its account is configured) then the session is
  closed exactly once, the close is the last call made, and a failed call is followed
  by nothing but the close (a failed move of one item of a bulk move excepted, which
  is recorded and passed over). An operation that opens no session closes none.
\<close>

theorem session_closed_once:
  "let tr = trace (snd (serve cfg lib r s))
   in if opens_session cfg r
      then closes tr = 1 \<and> last tr = (End, Done) \<and> aborts_on_failure (is_bulk r) tr
      else closes tr = 0"
proof (cases r)
  case ListAccounts
  then show ?thesis by (simp add: opens_session_def imap_list_accounts_def new_session_def)
next
  case (ListFolders a)
  then show ?thesis
    by (cases rule: createImapConnection_cases[of cfg a])
       (auto simp: opens_session_def handler_defs run_simps Let_def split: prod.splits sum.splits)
next
  case (ListEmails a f l cr)
  then show ?thesis
    by (cases rule: createImapConnection_cases[of cfg a])
       (auto simp: opens_session_def handler_defs run_simps Let_def split: prod.splits sum.splits)
next
  case (MoveEmail a f u t)
  then show ?thesis
    by (cases rule: createImapConnection_cases[of cfg a])
       (auto simp: opens_session_def handler_defs run_simps Let_def split: prod.splits sum.splits)
next
  case (MoveByMessageId a f m t)
  then show ?thesis
    by (cases rule: createImapConnection_cases[of cfg a])
       (auto simp: opens_session_def handler_defs run_simps Let_def split: prod.splits sum.splits list.splits)
next
  case (DeleteEmail a f u)
  then show ?thesis
    by (cases rule: createImapConnection_cases[of cfg a])
       (auto simp: opens_session_def handler_defs run_simps Let_def split: prod.splits sum.splits)
next
  case (BulkMove a f us t)
  show ?thesis
  proof (cases rule: createImapConnection_cases[of cfg a])
    case (ok c)
    then show ?thesis using bulk_sessions[OF ok(1), of lib f us t s] BulkMove
      by (simp add: opens_session_def)
  next
    case bad
    then show ?thesis using BulkMove
      by (simp add: opens_session_def imap_bulk_move_def run_simps)
  qed
next
  case (MarkUnseen a f us al)
  then show ?thesis
    by (cases rule: createImapConnection_cases[of cfg a])
       (auto simp: opens_session_def handler_defs run_simps Let_def split: prod.splits sum.splits)
next
  case (SendEmail a to su te h cc bcc rt)
  then show ?thesis
    by (auto simp: opens_session_def handler_defs run_simps Let_def closes_def split: prod.splits sum.splits)
next
  case (TestConnection a)
  then show ?thesis
    by (cases rule: createImapConnection_cases[of cfg a])
       (auto simp: opens_session_def handler_defs run_simps Let_def split: prod.splits sum.splits)
qed

theorem session_closed_once_witness:
  "opens_session demo_config (BulkMove ''onecom'' ''INBOX'' [101, 999, 102] ''INBOX.Archive'')
   \<and> closes (trace (snd (serve demo_config (demo_lib [] [])
          (BulkMove ''onecom'' ''INBOX'' [101, 999, 102] ''INBOX.Archive'') ()))) = 1
   \<and> last (trace (snd (serve demo_config (demo_lib [] [])
          (BulkMove ''onecom'' ''INBOX'' [101, 999, 102] ''INBOX.Archive'') ()))) = (End, Done)
   \<and> aborts_on_failure True (trace (snd (serve demo_config (demo_lib [] [])
          (BulkMove ''onecom'' ''INBOX'' [101, 999, 102] ''INBOX.Archive'') ())))
   \<and> \<not> opens_session demo_config (ListFolders ''gmx'')
   \<and> closes (trace (snd (serve demo_config (demo_lib [] []) (ListFolders ''gmx'') ()))) = 0"
proof -
  have h1: "opens_session demo_config (BulkMove ''onecom'' ''INBOX'' [101, 999, 102] ''INBOX.Archive'')"
    by (simp add: opens_session_def configured_def demo_config_def demo_account_def)
  have h2: "\<not> opens_session demo_config (ListFolders ''gmx'')"
    by (simp add: opens_session_def configured_def demo_config_def demo_account_def)
  show ?thesis
    using h1 h2
      session_closed_once[of demo_config "demo_lib [] []"
        "BulkMove ''onecom'' ''INBOX'' [101, 999, 102] ''INBOX.Archive''" "()"]
      session_closed_once[of demo_config "demo_lib [] []" "ListFolders ''gmx''" "()"]
    by (simp add: Let_def)
qed

subsection \<open>C8: configured accounts\<close>

text \<open>
  Claim C8: for every account key (the keys of the configuration object are distinct),
  the account is listed among the configured accounts exactly when both its user and
  its password are present, a connection is created for it exactly then, and otherwise
  every operation on that account fails with the not-configured message before any
  call is made. Present means truthy: set and not the empty string.
\<close>

theorem configured_iff_user_and_password:
  assumes "distinct (map fst (cfg_accounts cfg))"
  shows "((key \<in> set (map fst (getConfiguredAccounts cfg))) = configured cfg key)
       \<and> ((\<exists>c. createImapConnection cfg key = Inr c) = configured cfg key)
       \<and> (\<not> configured cfg key \<longrightarrow>
            createImapConnection cfg key = Inl (not_configured key) \<and>
            (\<forall>r. account_arg r = Some key \<longrightarrow>
                 serve cfg lib r s =
                   (if is_test r
                    then JObj [(''success'', JBool False), (''account'', JStr key),
                               (''error'', JStr (not_configured key))]
                    else failure_report (not_configured key),
                    new_session s)))"
proof (intro conjI impI allI)
  show "(key \<in> set (map fst (getConfiguredAccounts cfg))) = configured cfg key"
  proof
    assume "key \<in> set (map fst (getConfiguredAccounts cfg))"
    then obtain a where a: "(key, a) \<in> set (cfg_accounts cfg)"
      "truthy (acc_user a)" "truthy (acc_password a)"
      by (auto simp: getConfiguredAccounts_def)
    from a(1) assms have "map_of (cfg_accounts cfg) key = Some a" by simp
    with a show "configured cfg key" by (simp add: configured_def)
  next
    assume "configured cfg key"
    then obtain a where a: "map_of (cfg_accounts cfg) key = Some a"
      "truthy (acc_user a)" "truthy (acc_password a)"
      by (auto simp: configured_def split: option.splits)
    from a(1) have "(key, a) \<in> set (cfg_accounts cfg)" by (rule map_of_SomeD)
    with a show "key \<in> set (map fst (getConfiguredAccounts cfg))"
      by (force simp: getConfiguredAccounts_def)
  qed
next
  show "(\<exists>c. createImapConnection cfg key = Inr c) = configured cfg key"
    by (rule createImapConnection_configured)
next
  assume "\<not> configured cfg key"
  then show "createImapConnection cfg key = Inl (not_configured key)"
    by (rule createImapConnection_not_configured)
next
  fix r
  assume nc: "\<not> configured cfg key" and r: "account_arg r = Some key"
  have c: "createImapConnection cfg key = Inl (not_configured key)"
    using nc by (rule createImapConnection_not_configured)
  have t: "createSmtpTransporter cfg key = Inl (not_configured key)"
    using nc by (auto simp: createSmtpTransporter_def configured_def split: option.splits)
  show "serve cfg lib r s =
          (if is_test r
           then JObj [(''success'', JBool False), (''account'', JStr key),
                      (''error'', JStr (not_configured key))]
           else failure_report (not_configured key),
           new_session s)"
    using r by (cases r) (simp_all add: handler_defs imap_bulk_move_def run_simps c t)
qed

theorem configured_iff_user_and_password_witness:
  "distinct (map fst (cfg_accounts demo_config))
   \<and> ''onecom'' \<in> set (map fst (getConfiguredAccounts demo_config))
   \<and> configured demo_config ''onecom''
   \<and> ''gmx'' \<notin> set (map fst (getConfiguredAccounts demo_config))
   \<and> \<not> configured demo_config ''gmx''
   \<and> createImapConnection demo_config ''gmx'' = Inl (not_configured ''gmx'')
   \<and> serve demo_config (demo_lib [] []) (MoveEmail ''gmx'' ''INBOX'' 3 ''Archive'') ()
       = (failure_report (not_configured ''gmx''), new_session ())"
proof -
  have h: "distinct (map fst (cfg_accounts demo_config))"
    by (simp add: demo_config_def)
  have c1: "configured demo_config ''onecom''"
    by (simp add: configured_def demo_config_def demo_account_def)
  have c2: "\<not> configured demo_config ''gmx''"
    by (simp add: configured_def demo_config_def demo_account_def)
  note t1 = configured_iff_user_and_password[OF h, of "''onecom''" "demo_lib [] []" "()"]
  note t2 = configured_iff_user_and_password[OF h, of "''gmx''" "demo_lib [] []" "()"]
  have l1: "''onecom'' \<in> set (map fst (getConfiguredAccounts demo_config))"
    using t1 c1 by blast
  have l2: "''gmx'' \<notin> set (map fst (getConfiguredAccounts demo_config))"
    using t2 c2 by blast
  have l3: "createImapConnection demo_config ''gmx'' = Inl (not_configured ''gmx'')"
    using t2 c2 by blast
  have all: "\<forall>r. account_arg r = Some ''gmx'' \<longrightarrow>
                 serve demo_config (demo_lib [] []) r () =
                   (if is_test r
                    then JObj [(''success'', JBool False), (''account'', JStr ''gmx''),
                               (''error'', JStr (not_configured ''gmx''))]
                    else failure_report (not_configured ''gmx''),
                    new_session ())"
    using t2 c2 by blast
  have l4: "serve demo_config (demo_lib [] []) (MoveEmail ''gmx'' ''INBOX'' 3 ''Archive'') ()
              = (failure_report (not_configured ''gmx''), new_session ())"
    using all[rule_format, of "MoveEmail ''gmx'' ''INBOX'' 3 ''Archive''"] by simp
  show ?thesis using h c1 c2 l1 l2 l3 l4 by blast
qed

subsection \<open>C9: mutations only on a mailbox selected read-write\<close>

text \<open>
  Claim C9: for every operation and every server, each move, flag change and expunge
  is issued while the operation's own mailbox is selected read-write, that is after a
  successful select of that mailbox with the read-only flag off and before the close.
  Operations that select no mailbox or select it read-only issue no mutation.
\<close>

theorem mutations_need_rw_select:
  "mutations_guarded (mailbox_arg r) None (trace (snd (serve cfg lib r s)))"
proof (cases r)
  case (BulkMove a f us t)
  then show ?thesis using bulk_guarded[of f cfg lib a us t s] by simp
next
  case (MoveByMessageId a f m t)
  then show ?thesis
    by (cases rule: createImapConnection_cases[of cfg a])
       (auto simp: handler_defs run_simps Let_def split: prod.splits sum.splits list.splits)
qed (auto simp: handler_defs run_simps Let_def
          split: prod.splits sum.splits)

theorem mutations_need_rw_select_witness:
  "list_ex (\<lambda>ev. is_mutation (fst ev))
     (trace (snd (serve demo_config (demo_lib [] []) (DeleteEmail ''onecom'' ''INBOX'' 4) ())))
   \<and> mutations_guarded (Some ''INBOX'') None
     (trace (snd (serve demo_config (demo_lib [] []) (DeleteEmail ''onecom'' ''INBOX'' 4) ())))"
proof -
  have "trace (snd (serve demo_config (demo_lib [] []) (DeleteEmail ''onecom'' ''INBOX'' 4) ()))
          = [(Connect demo_options, Done), (OpenBox ''INBOX'' False, Done),
             (AddFlags [4] [flag_Deleted], Done), (Expunge, Done), (End, Done)]"
    by (simp add: handler_defs run_simps demo_connection)
  then show ?thesis
    using mutations_need_rw_select[of "DeleteEmail ''onecom'' ''INBOX'' 4" demo_config
                                      "demo_lib [] []" "()"]
    by simp
qed

subsection \<open>C10: marking a whole folder unseen\<close>

text \<open>
  Claim C10: when the caller sets the all flag, or gives no identifier list or an empty
  one, and the session opens and the search for all messages answers, then for an
  empty folder the report is a success with count zero, no flag command is issued and
  the server stays in the state the search left. Otherwise the library's removal of
  the Seen flag is applied once to all the identifiers found, in the state the search
  left, and the server ends in the state that removal leaves; the report is the
  success report counting them when the removal is accepted, and its error otherwise.
\<close>

theorem mark_unseen_whole_folder:
  assumes "all \<or> uids = None \<or> uids = Some []"
    and "createImapConnection cfg account = Inr c"
    and "lib_connect lib c s = (Inr (), s1)"
    and "lib_openBox lib folder False s1 = (Inr (), s2)"
    and "lib_search lib [Plain ''ALL''] s2 = (Inr found, s3)"
  shows "imap_mark_unseen cfg lib account folder uids all s =
           (if found = []
            then (JObj [(''success'', JBool True),
                        (''account'', JStr account),
                        (''folder'', JStr folder),
                        (''message'', JStr ''No emails to mark as unseen''),
                        (''count'', JNum 0)],
                  \<lparr>ses_server = s3, ses_imap = Some c,
                   trace = [(Connect c, Done), (OpenBox folder False, Done),
                            (Search [Plain ''ALL''], Done), (End, Done)]\<rparr>)
            else (case lib_delFlags lib found [flag_Seen] s3 of
                    (Inr ok, s4) \<Rightarrow>
                      (JObj [(''success'', JBool True),
                             (''account'', JStr account),
                             (''folder'', JStr folder),
                             (''action'', JStr ''marked_unseen''),
                             (''count'', JNum (int (length found))),
                             (''uids'', (if length found \<le> 50 then jnums found
                                         else JStr (string_of_nat (length found)
                                                    @ '' emails (list truncated)'')))],
                       \<lparr>ses_server = s4, ses_imap = Some c,
                        trace = [(Connect c, Done), (OpenBox folder False, Done),
                                 (Search [Plain ''ALL''], Done),
                                 (DelFlags found [flag_Seen], Done), (End, Done)]\<rparr>)
                  | (Inl error, s4) \<Rightarrow>
                      (JObj [(''success'', JBool False), (''error'', JStr error)],
                       \<lparr>ses_server = s4, ses_imap = Some c,
                        trace = [(Connect c, Done), (OpenBox folder False, Done),
                                 (Search [Plain ''ALL''], Done),
                                 (DelFlags found [flag_Seen], Failed error), (End, Done)]\<rparr>)))"
  using assms(1) unfolding imap_mark_unseen_def
  by (auto simp: run_simps assms(2-) failure_report_def Let_def split: prod.splits sum.splits)

theorem mark_unseen_whole_folder_witness:
  "(False \<or> (None :: int list option) = None \<or> (None :: int list option) = Some [])
   \<and> createImapConnection demo_config ''onecom'' = Inr demo_options
   \<and> lib_connect (recording_lib [4, 5]) demo_options [] = (Inr (), [])
   \<and> lib_openBox (recording_lib [4, 5]) ''INBOX'' False [] = (Inr (), [])
   \<and> lib_search (recording_lib [4, 5]) [Plain ''ALL''] [] = (Inr [4, 5], [])
   \<and> imap_mark_unseen demo_config (recording_lib [4, 5]) ''onecom'' ''INBOX'' None False []
       = (JObj [(''success'', JBool True),
                (''account'', JStr ''onecom''),
                (''folder'', JStr ''INBOX''),
                (''action'', JStr ''marked_unseen''),
                (''count'', JNum 2),
                (''uids'', jnums [4, 5])],
          \<lparr>ses_server = [DelFlags [4, 5] [flag_Seen]], ses_imap = Some demo_options,
           trace = [(Connect demo_options, Done), (OpenBox ''INBOX'' False, Done),
                    (Search [Plain ''ALL''], Done),
                    (DelFlags [4, 5] [flag_Seen], Done), (End, Done)]\<rparr>)
   \<and> lib_search (recording_lib []) [Plain ''ALL''] [] = (Inr [], [])
   \<and> imap_mark_unseen demo_config (recording_lib []) ''onecom'' ''INBOX'' (Some []) False []
       = (JObj [(''success'', JBool True),
                (''account'', JStr ''onecom''),
                (''folder'', JStr ''INBOX''),
                (''message'', JStr ''No emails to mark as unseen''),
                (''count'', JNum 0)],
          \<lparr>ses_server = [], ses_imap = Some demo_options,
           trace = [(Connect demo_options, Done), (OpenBox ''INBOX'' False, Done),
                    (Search [Plain ''ALL''], Done), (End, Done)]\<rparr>)"
proof -
  have h0: "False \<or> (None :: int list option) = None \<or> (None :: int list option) = Some []"
    by simp
  have h0': "False \<or> Some ([] :: int list) = None \<or> Some ([] :: int list) = Some []" by simp
  have h1: "createImapConnection demo_config ''onecom'' = Inr demo_options"
    by (rule demo_connection)
  have h2: "lib_connect (recording_lib [4, 5]) demo_options [] = (Inr (), [])" by simp
  have h3: "lib_openBox (recording_lib [4, 5]) ''INBOX'' False [] = (Inr (), [])" by simp
  have h4: "lib_search (recording_lib [4, 5]) [Plain ''ALL''] [] = (Inr [4, 5], [])" by simp
  have e2: "lib_connect (recording_lib []) demo_options [] = (Inr (), [])" by simp
  have e3: "lib_openBox (recording_lib []) ''INBOX'' False [] = (Inr (), [])" by simp
  have e4: "lib_search (recording_lib []) [Plain ''ALL''] [] = (Inr [], [])" by simp
  show ?thesis
    using h1 h2 h3 h4 e4
      mark_unseen_whole_folder[OF h0 h1 h2 h3 h4]
      mark_unseen_whole_folder[OF h0' h1 e2 e3 e4]
    by simp
qed

end
